theory Spec2Isabelle
  imports Main "HOL-Library.Multiset"
begin

section \<open>Errors and user-facing messages\<close>

text \<open>
  Python exceptions that the modelled paths of \<^verbatim>\<open>app.py\<close> can raise: a failed request to
  the remote store (\<open>APIError\<close>), a missing DataFrame column or label (\<open>KeyError\<close>),
  pandas refusing to compare differently labelled frames (\<open>ValueError\<close>) and subscripting
  \<^verbatim>\<open>None\<close> (\<open>TypeError\<close>).
\<close>

datatype exn = APIError | KeyError string | ValueError | TypeError

text \<open>
  The Streamlit notifications of the modelled paths, one constructor per call of
  \<^verbatim>\<open>st.error\<close>, \<^verbatim>\<open>st.success\<close>, \<^verbatim>\<open>st.warning\<close> and \<^verbatim>\<open>st.info\<close>; the arguments are the
  values interpolated into the f-string.
\<close>

datatype msg =
    Error_fetching string
  | Error_mandatory_fields
  | Success_scheme_created string
  | Success_copied nat
  | Warning_no_master_items
  | Error_failed_create_or_copy exn
  | Info_no_items_available string
  | Success_updated nat string
  | Info_no_changes

section \<open>The remote store\<close>

text \<open>
  Rows of the three tables. A nullable column is an \<open>option\<close>. Text is a \<open>string\<close> read as
  the UTF-8 bytes of the Python text, so that a character outside ASCII is a run of bytes
  that are all at least 128.
\<close>

record master_checklist_row =
  mc_id :: nat
  mc_item_description :: "string option"
  mc_type :: string
  mc_scheme_type :: string

record progress_tracker_row =
  pt_id :: nat
  pt_scheme_id :: nat
  pt_master_item_id :: nat
  pt_is_complete :: bool
  pt_date_completed :: "string option"
  pt_completed_by :: "string option"
  pt_notes :: "string option"

text \<open>
  The columns of a row of \<open>schemes\<close> apart from its id: those the modelled code reads
  back, and the remaining administrative columns as an opaque list of column and value.
\<close>

record schemes_columns =
  sd_scheme_name :: string
  sd_scheme_type :: string
  sd_registration_number :: string
  sd_assigned_portfolio_manager :: string
  sd_pm_email :: string
  sd_other_columns :: "(string \<times> string) list"

text \<open>
  The store holds the tables, the next value of the two serial primary keys, and a script
  \<open>outcomes\<close> of the remote service: the head of the list says whether the next request
  goes through (\<open>True\<close>) or raises (\<open>False\<close>); when the script is used up every request
  goes through. Each \<^verbatim>\<open>.execute()\<close> of the source consumes one entry.
\<close>

record store =
  schemes :: "(nat \<times> schemes_columns) list"
  master_checklist :: "master_checklist_row list"
  progress_tracker :: "progress_tracker_row list"
  next_scheme_id :: nat
  next_progress_id :: nat
  outcomes :: "bool list"

definition execute :: "store \<Rightarrow> bool \<times> store" where
  "execute s = (case outcomes s of [] \<Rightarrow> (True, s) | b # bs \<Rightarrow> (b, s\<lparr>outcomes := bs\<rparr>))"

section \<open>Progress reconciliation: the save path of \<open>display_and_edit_progress\<close>\<close>

text \<open>
  A row of \<^verbatim>\<open>df_progress\<close> (the dictionaries of \<^verbatim>\<open>data_for_df\<close>). \<^verbatim>\<open>df_display\<close> and
  \<^verbatim>\<open>edited_df\<close> have the same rows under renamed column headers (\<open>Complete\<close>, \<open>Date\<close>,
  \<open>Completed By\<close>, \<open>Notes\<close>, \<open>Checklist Item\<close>), so one record type serves the three frames.
  The four columns read by \<open>chapter_body\<close> come first, as a record of their own that the
  full row extends (\<open>notes_text\<close> is the column \<^verbatim>\<open>notes\<close>).
\<close>

record report_row =
  item_description :: "string option"
  is_complete :: bool
  date_completed :: "string option"
  completed_by :: "string option"

record flat_row = report_row +
  progress_id :: nat
  scheme_type :: string
  type :: string
  notes_text :: "string option"

text \<open>
  A DataFrame whose row labels matter is a list of label and row, in row order.
  \<^verbatim>\<open>reset_index(drop=True)\<close> relabels the rows 0, 1, 2, ...
\<close>

type_synonym 'r frame = "(nat \<times> 'r) list"

definition reset_index :: "'r list \<Rightarrow> 'r frame" where
  "reset_index rows = enumerate 0 rows"

text \<open>\<^verbatim>\<open>df.loc[index, column]\<close>: the row stored under a label, \<open>KeyError\<close> if there is none.\<close>

definition loc :: "'r frame \<Rightarrow> nat \<Rightarrow> exn + 'r" where
  "loc df index = (case map_of df index of None \<Rightarrow> Inl (KeyError ''index'') | Some r \<Rightarrow> Inr r)"

text \<open>
  \<^verbatim>\<open>comparison_df_edited.compare(comparison_df_original, keep_shape=True)\<close> on the four
  editable columns. pandas raises \<open>ValueError\<close> unless both frames carry the same labels in
  the same order. With \<^verbatim>\<open>keep_shape=True\<close> the result keeps every row of the frame; a cell
  holds the pair (self, other) where the two values differ and NaN (\<open>None\<close>) where they
  agree, two missing values counting as agreeing.
\<close>

record changes_row =
  ch_Complete :: "(bool \<times> bool) option"
  ch_Date :: "(string option \<times> string option) option"
  ch_Completed_By :: "(string option \<times> string option) option"
  ch_Notes :: "(string option \<times> string option) option"

definition cell_diff :: "'a \<Rightarrow> 'a \<Rightarrow> ('a \<times> 'a) option" where
  "cell_diff a b = (if a = b then None else Some (a, b))"

definition diff_row :: "flat_row \<Rightarrow> flat_row \<Rightarrow> changes_row" where
  "diff_row a b =
     \<lparr>ch_Complete = cell_diff (is_complete a) (is_complete b),
      ch_Date = cell_diff (date_completed a) (date_completed b),
      ch_Completed_By = cell_diff (completed_by a) (completed_by b),
      ch_Notes = cell_diff (notes_text a) (notes_text b)\<rparr>"

definition compare :: "flat_row frame \<Rightarrow> flat_row frame \<Rightarrow> exn + changes_row frame" where
  "compare self other =
     (if map fst self \<noteq> map fst other then Inl ValueError
      else Inr (map (\<lambda>((i, a), (j, b)). (i, diff_row a b)) (zip self other)))"

text \<open>
  The Python value that \<^verbatim>\<open>.loc\<close> hands out for a cell of a text column: the text, or, for
  a missing cell, \<^verbatim>\<open>None\<close> or the float NaN. Which of the two pandas gives depends on its
  version and on the dtype it chose for the column, so it is a parameter here: \<open>nan_cols\<close>
  tells for each column of the edited frame whether its missing cells read as NaN.
\<close>

datatype pyval = PyNone | PyNaN | PyStr string

definition read_cell :: "bool \<Rightarrow> string option \<Rightarrow> pyval" where
  "read_cell missing_is_nan v =
     (case v of None \<Rightarrow> (if missing_is_nan then PyNaN else PyNone) | Some t \<Rightarrow> PyStr t)"

text \<open>Python truthiness: \<^verbatim>\<open>None\<close> and the empty text are false, NaN is true.\<close>

definition truthy :: "pyval \<Rightarrow> bool" where
  "truthy v = (case v of PyNone \<Rightarrow> False | PyNaN \<Rightarrow> True | PyStr t \<Rightarrow> t \<noteq> [])"

text \<open>
  The dictionary \<^verbatim>\<open>update_payload\<close> built for one row. \<open>p_is_complete\<close> holds
  \<^verbatim>\<open>new_complete\<close>, which \<^verbatim>\<open>.loc\<close> read from the boolean column \<open>Complete\<close>: a
  \<^verbatim>\<open>numpy.bool_\<close>.
\<close>

record update_payload =
  p_is_complete :: bool
  p_date_completed :: pyval
  p_completed_by :: pyval
  p_notes :: pyval

definition update_payload :: "(string \<Rightarrow> bool) \<Rightarrow> flat_row \<Rightarrow> update_payload" where
  "update_payload nan_cols edited_row =
     (let new_complete = is_complete edited_row;
          new_date = read_cell (nan_cols ''Date'') (date_completed edited_row);
          new_by = read_cell (nan_cols ''Completed By'') (completed_by edited_row);
          new_notes = read_cell (nan_cols ''Notes'') (notes_text edited_row)
      in \<lparr>p_is_complete = new_complete,
          p_date_completed = (if new_complete \<and> truthy new_date then new_date else PyNone),
          p_completed_by = (if new_complete \<and> truthy new_by then new_by else PyNone),
          p_notes = new_notes\<rparr>)"

text \<open>
  The body of the loop up to the call of the client: the id is read from \<open>df\<close> and the new
  values from \<open>edited_df\<close>, both under the row label \<open>index\<close>.
\<close>

definition row_update ::
  "(string \<Rightarrow> bool) \<Rightarrow> flat_row frame \<Rightarrow> flat_row frame \<Rightarrow> nat \<Rightarrow> exn + (nat \<times> update_payload)" where
  "row_update nan_cols df edited_df index =
     (case loc df index of
        Inl e \<Rightarrow> Inl e
      | Inr df_row \<Rightarrow>
          (case loc edited_df index of
             Inl e \<Rightarrow> Inl e
           | Inr edited_row \<Rightarrow> Inr (progress_id df_row, update_payload nan_cols edited_row)))"

text \<open>
  \<^verbatim>\<open>supabase.table('progress_tracker').update(update_payload).eq('id', progress_id).execute()\<close>.
  The client serialises the payload to JSON before it sends anything, and the JSON
  encoder has no encoding for the \<^verbatim>\<open>numpy.bool_\<close> under \<open>is_complete\<close>: the call raises
  \<open>TypeError\<close> for every payload that the loop builds, no request is made and the store
  is not touched.
\<close>

definition update_progress :: "update_payload \<Rightarrow> nat \<Rightarrow> store \<Rightarrow> (exn + unit) \<times> store" where
  "update_progress p pid s = (Inl TypeError, s)"

text \<open>
  The loop \<^verbatim>\<open>for index in changes.index\<close>. \<open>updated_rows\<close> collects, as in the source, the
  id of every row whose update went through, here together with the payload that was sent
  under that id. An exception ends the loop (nothing in the source catches it).
\<close>

fun save_loop ::
  "(string \<Rightarrow> bool) \<Rightarrow> nat list \<Rightarrow> flat_row frame \<Rightarrow> flat_row frame \<Rightarrow>
   (nat \<times> update_payload) list \<Rightarrow> store \<Rightarrow>
   (exn + unit) \<times> (nat \<times> update_payload) list \<times> store" where
  "save_loop nan_cols [] df edited_df updated_rows s = (Inr (), updated_rows, s)"
| "save_loop nan_cols (index # rest) df edited_df updated_rows s =
     (case row_update nan_cols df edited_df index of
        Inl e \<Rightarrow> (Inl e, updated_rows, s)
      | Inr (pid, payload) \<Rightarrow>
          (case update_progress payload pid s of
             (Inl e, s') \<Rightarrow> (Inl e, updated_rows, s')
           | (Inr u, s') \<Rightarrow>
               save_loop nan_cols rest df edited_df (updated_rows @ [(pid, payload)]) s'))"

text \<open>
  \<open>display_and_edit_progress\<close> with the Save button pressed: \<open>df\<close> is the frame shown,
  \<open>edited_df\<close> what \<^verbatim>\<open>st.data_editor\<close> returned. The result is the exception raised or the
  notification shown, the updates that went through, and the store.
\<close>

definition display_and_edit_progress ::
  "(string \<Rightarrow> bool) \<Rightarrow> flat_row frame \<Rightarrow> string \<Rightarrow> flat_row frame \<Rightarrow> store \<Rightarrow>
   (exn + msg) \<times> (nat \<times> update_payload) list \<times> store" where
  "display_and_edit_progress nan_cols df source_type edited_df s =
     (if df = [] then (Inr (Info_no_items_available source_type), [], s)
      else
        (case compare edited_df df of
           Inl e \<Rightarrow> (Inl e, [], s)
         | Inr changes \<Rightarrow>
             if changes \<noteq> [] then
               (case save_loop nan_cols (map fst changes) df edited_df [] s of
                  (Inl e, updated_rows, s') \<Rightarrow> (Inl e, updated_rows, s')
                | (Inr u, updated_rows, s') \<Rightarrow>
                    (Inr (Success_updated (length updated_rows) source_type), updated_rows, s'))
             else (Inr Info_no_changes, [], s)))"

section \<open>Template instantiation: \<open>new_scheme_page\<close>\<close>

text \<open>
  \<^verbatim>\<open>fetch_data("master_checklist")\<close>: one request. When it raises, or when the table has no
  row, the source returns \<^verbatim>\<open>pd.DataFrame()\<close>, a frame with no column at all; otherwise the
  frame of the rows. So a frame from \<open>fetch_data\<close> has its columns exactly when it has a
  row, and the empty list stands for the frame without columns. The row labels of this
  frame are never read, so it is the list of its rows.
\<close>

definition fetch_data_master_checklist :: "store \<Rightarrow> msg list \<times> master_checklist_row list \<times> store" where
  "fetch_data_master_checklist s =
     (case execute s of
        (False, s') \<Rightarrow> ([Error_fetching ''master_checklist''], [], s')
      | (True, s') \<Rightarrow> ([], master_checklist s', s'))"

text \<open>
  \<^verbatim>\<open>df_master_checklist[df_master_checklist['scheme_type'] == scheme_type_abbr]\<close>: reading the
  column of a frame that has no column raises \<open>KeyError\<close>.
\<close>

definition items_to_copy :: "master_checklist_row list \<Rightarrow> string \<Rightarrow> exn + master_checklist_row list" where
  "items_to_copy df_master_checklist scheme_type_abbr =
     (if df_master_checklist = [] then Inl (KeyError ''scheme_type'')
      else Inr (filter (\<lambda>row. mc_scheme_type row = scheme_type_abbr) df_master_checklist))"

text \<open>
  \<^verbatim>\<open>supabase.table("schemes").insert(scheme_data).execute()\<close>: one request; the store
  assigns the id and returns it.
\<close>

definition insert_scheme :: "schemes_columns \<Rightarrow> store \<Rightarrow> (exn + nat) \<times> store" where
  "insert_scheme d s =
     (case execute s of
        (False, s') \<Rightarrow> (Inl APIError, s')
      | (True, s') \<Rightarrow>
          (Inr (next_scheme_id s'),
           s'\<lparr>schemes := schemes s' @ [(next_scheme_id s', d)],
              next_scheme_id := Suc (next_scheme_id s')\<rparr>))"

text \<open>
  One dictionary of \<^verbatim>\<open>progress_data\<close>, and the bulk insert
  \<^verbatim>\<open>supabase.table("progress_tracker").insert(progress_data).execute()\<close>: one request, hence
  one statement of the store, which adds every row or none. The store assigns consecutive
  ids and leaves the columns that the dictionary does not name at NULL.
\<close>

record progress_data_item =
  pd_scheme_id :: nat
  pd_master_item_id :: nat
  pd_is_complete :: bool

definition new_progress_row :: "nat \<times> progress_data_item \<Rightarrow> progress_tracker_row" where
  "new_progress_row kd =
     \<lparr>pt_id = fst kd, pt_scheme_id = pd_scheme_id (snd kd),
      pt_master_item_id = pd_master_item_id (snd kd), pt_is_complete = pd_is_complete (snd kd),
      pt_date_completed = None, pt_completed_by = None, pt_notes = None\<rparr>"

definition insert_progress :: "progress_data_item list \<Rightarrow> store \<Rightarrow> (exn + unit) \<times> store" where
  "insert_progress progress_data s =
     (case execute s of
        (False, s') \<Rightarrow> (Inl APIError, s')
      | (True, s') \<Rightarrow>
          (Inr (),
           s'\<lparr>progress_tracker :=
                progress_tracker s' @
                map new_progress_row (enumerate (next_progress_id s') progress_data),
              next_progress_id := next_progress_id s' + length progress_data\<rparr>))"

text \<open>
  The inputs of the form that the modelled code reads (\<open>form_scheme_name\<close> is the input
  \<^verbatim>\<open>scheme_name\<close>, and so on); the other inputs go into \<^verbatim>\<open>scheme_data\<close> unread.
\<close>

record scheme_form =
  form_scheme_name :: string
  form_is_bc :: bool
  form_assigned_portfolio_manager :: string
  form_pm_email :: string
  form_registration_number :: string
  form_other_inputs :: "(string \<times> string) list"

text \<open>
  \<^verbatim>\<open>scheme_type_abbr = 'BC' if is_bc else 'HOA'\<close> and the dictionary \<^verbatim>\<open>scheme_data\<close>.
\<close>

definition scheme_type_abbr :: "scheme_form \<Rightarrow> string" where
  "scheme_type_abbr form = (if form_is_bc form then ''BC'' else ''HOA'')"

definition scheme_data :: "scheme_form \<Rightarrow> schemes_columns" where
  "scheme_data form =
     \<lparr>sd_scheme_name = form_scheme_name form, sd_scheme_type = scheme_type_abbr form,
      sd_registration_number = form_registration_number form,
      sd_assigned_portfolio_manager = form_assigned_portfolio_manager form,
      sd_pm_email = form_pm_email form, sd_other_columns = form_other_inputs form\<rparr>"

text \<open>
  \<^verbatim>\<open>all([scheme_name, assigned_portfolio_manager, pm_email, registration_number])\<close>: none of
  the four texts is empty.
\<close>

definition mandatory_filled :: "scheme_form \<Rightarrow> bool" where
  "mandatory_filled form =
     (form_scheme_name form \<noteq> [] \<and> form_assigned_portfolio_manager form \<noteq> [] \<and>
      form_pm_email form \<noteq> [] \<and> form_registration_number form \<noteq> [])"

text \<open>
  \<open>new_scheme_page\<close> with the form submitted: the notifications shown, in order, and the
  store. The \<^verbatim>\<open>try\<close> block covers the two inserts and the selection of the items; its
  handler shows one error and does nothing else.
\<close>

definition new_scheme_page :: "scheme_form \<Rightarrow> store \<Rightarrow> msg list \<times> store" where
  "new_scheme_page form s0 =
     (case fetch_data_master_checklist s0 of
        (shown, df_master_checklist, s1) \<Rightarrow>
          if \<not> mandatory_filled form then (shown @ [Error_mandatory_fields], s1)
          else
            (case insert_scheme (scheme_data form) s1 of
               (Inl e, s2) \<Rightarrow> (shown @ [Error_failed_create_or_copy e], s2)
             | (Inr new_scheme_id, s2) \<Rightarrow>
                 (let shown2 = shown @ [Success_scheme_created (form_scheme_name form)]
                  in case items_to_copy df_master_checklist (scheme_type_abbr form) of
                       Inl e \<Rightarrow> (shown2 @ [Error_failed_create_or_copy e], s2)
                     | Inr items \<Rightarrow>
                         if items \<noteq> [] then
                           (let progress_data =
                                  map (\<lambda>row. \<lparr>pd_scheme_id = new_scheme_id,
                                              pd_master_item_id = mc_id row,
                                              pd_is_complete = False\<rparr>) items
                            in case insert_progress progress_data s2 of
                                 (Inl e, s3) \<Rightarrow> (shown2 @ [Error_failed_create_or_copy e], s3)
                               | (Inr u, s3) \<Rightarrow>
                                   (shown2 @ [Success_copied (length progress_data)], s3))
                         else (shown2 @ [Warning_no_master_items], s2))))"

section \<open>Reading progress: \<open>progress_tracker_page\<close>\<close>

text \<open>
  \<^verbatim>\<open>supabase.from_('progress_tracker').select("*, master_checklist(*)").eq('scheme_id', ...)\<close>:
  one request; every progress row of the scheme comes with the row of \<open>master_checklist\<close>
  that its \<open>master_item_id\<close> references at the time of the request, or with null.
  Nothing catches a failure of this request.
\<close>

definition progress_data_list ::
  "nat \<Rightarrow> store \<Rightarrow> (exn + (progress_tracker_row \<times> master_checklist_row option) list) \<times> store" where
  "progress_data_list selected_scheme_id s =
     (case execute s of
        (False, s') \<Rightarrow> (Inl APIError, s')
      | (True, s') \<Rightarrow>
          (Inr (map (\<lambda>item. (item, find (\<lambda>m. mc_id m = pt_master_item_id item) (master_checklist s')))
                  (filter (\<lambda>item. pt_scheme_id item = selected_scheme_id) (progress_tracker s'))),
           s'))"

text \<open>
  The loop that builds \<^verbatim>\<open>data_for_df\<close>; \<^verbatim>\<open>item['master_checklist'][...]\<close> raises
  \<open>TypeError\<close> on a null join.
\<close>

fun data_for_df :: "(progress_tracker_row \<times> master_checklist_row option) list \<Rightarrow> exn + flat_row list" where
  "data_for_df [] = Inr []"
| "data_for_df ((item, None) # rest) = Inl TypeError"
| "data_for_df ((item, Some master) # rest) =
     (case data_for_df rest of
        Inl e \<Rightarrow> Inl e
      | Inr rows \<Rightarrow>
          Inr (\<lparr>item_description = mc_item_description master,
                is_complete = pt_is_complete item,
                date_completed = pt_date_completed item,
                completed_by = pt_completed_by item,
                progress_id = pt_id item,
                scheme_type = mc_scheme_type master,
                type = mc_type master,
                notes_text = pt_notes item\<rparr> # rows))"

text \<open>
  The rows of \<^verbatim>\<open>df_progress\<close> for the selected scheme. On the empty list the page shows
  ``No checklist items linked to this scheme.'' and stops, so the frames below are only
  built from a list with at least one row.
\<close>

definition df_progress :: "nat \<Rightarrow> store \<Rightarrow> (exn + flat_row list) \<times> store" where
  "df_progress selected_scheme_id s =
     (case progress_data_list selected_scheme_id s of
        (Inl e, s') \<Rightarrow> (Inl e, s')
      | (Inr joined, s') \<Rightarrow> (data_for_df joined, s'))"

definition df_pma :: "flat_row list \<Rightarrow> flat_row frame" where
  "df_pma rows = reset_index (filter (\<lambda>r. type r = ''PMA'') rows)"

definition df_pretor :: "flat_row list \<Rightarrow> flat_row frame" where
  "df_pretor rows = reset_index (filter (\<lambda>r. type r = ''Pretor'') rows)"

section \<open>Report rendering: \<open>chapter_body\<close> and \<open>generate_pdf_report\<close>\<close>

text \<open>
  What the table of the report consists of: boxes with a width, a height and the lines of
  text drawn in them. \<open>cell\<close> is FPDF's \<^verbatim>\<open>cell(w, h, txt)\<close>, one line of text in a box of
  the given height. \<open>multi_cell\<close> is FPDF's \<^verbatim>\<open>multi_cell(w, h, txt)\<close>: it breaks the text
  into lines of width at most \<open>w\<close> and draws each at height \<open>h\<close>. The line breaking
  belongs to the library and depends on the metrics of the current font; it is the
  parameter \<open>wrap\<close>, which is also what the dry run with \<^verbatim>\<open>output='LINES'\<close> returns.
\<close>

record drawn_cell =
  cell_w :: nat
  cell_h :: nat
  cell_lines :: "string list"

definition cell :: "nat \<Rightarrow> nat \<Rightarrow> string \<Rightarrow> drawn_cell" where
  "cell w h txt = \<lparr>cell_w = w, cell_h = h, cell_lines = [txt]\<rparr>"

definition multi_cell :: "(nat \<Rightarrow> string \<Rightarrow> string list) \<Rightarrow> nat \<Rightarrow> nat \<Rightarrow> string \<Rightarrow> drawn_cell" where
  "multi_cell wrap w h txt = \<lparr>cell_w = w, cell_h = length (wrap w txt) * h, cell_lines = wrap w txt\<rparr>"

record table_row =
  item_cell :: drawn_cell
  status_cell :: drawn_cell
  date_cell :: drawn_cell
  completed_by_cell :: drawn_cell

record report =
  chapter_title :: string
  table_header :: "drawn_cell list"
  table_rows :: "table_row list"

text \<open>
  \<^verbatim>\<open>.encode('ascii', errors='ignore').decode('ascii')\<close>: every character outside ASCII is
  dropped.
\<close>

definition sanitize :: "string \<Rightarrow> string" where
  "sanitize txt = filter (\<lambda>c. (of_char c :: nat) < 128) txt"

definition col_widths :: "nat list" where
  "col_widths = [100, 30, 30, 30]"

text \<open>
  The body of the loop over \<^verbatim>\<open>data.iterrows()\<close>, after the \<^verbatim>\<open>fillna\<close> of the three text
  columns.
\<close>

definition draw_row :: "(nat \<Rightarrow> string \<Rightarrow> string list) \<Rightarrow> 'a report_row_scheme \<Rightarrow> table_row" where
  "draw_row wrap row =
     (let item = sanitize (case item_description row of None \<Rightarrow> ''N/A'' | Some t \<Rightarrow> t);
          status = (if is_complete row then ''Complete'' else ''Pending'');
          date_str = (case date_completed row of None \<Rightarrow> ''-'' | Some d \<Rightarrow> d);
          completed_by_str = (case completed_by row of None \<Rightarrow> ''-'' | Some b \<Rightarrow> b);
          line_height = 6;
          item_lines = wrap (col_widths ! 0) item;
          cell_height = length item_lines * line_height
      in \<lparr>item_cell = multi_cell wrap (col_widths ! 0) line_height item,
          status_cell = cell (col_widths ! 1) cell_height status,
          date_cell = cell (col_widths ! 2) cell_height date_str,
          completed_by_cell = cell (col_widths ! 3) cell_height completed_by_str\<rparr>)"

definition chapter_body ::
  "(nat \<Rightarrow> string \<Rightarrow> string list) \<Rightarrow> 'a report_row_scheme list \<Rightarrow> string \<Rightarrow> report" where
  "chapter_body wrap data scheme_name =
     \<lparr>chapter_title = ''Scheme: '' @ scheme_name,
      table_header =
        [cell (col_widths ! 0) 7 ''Item'', cell (col_widths ! 1) 7 ''Status'',
         cell (col_widths ! 2) 7 ''Date'', cell (col_widths ! 3) 7 ''Completed By''],
      table_rows = map (draw_row wrap) data\<rparr>"

text \<open>
  \<open>generate_pdf_report\<close> up to the drawn content (the serialisation to PDF bytes is the
  library's). \<open>progress_data\<close> is \<^verbatim>\<open>df_progress\<close>, a frame that has its columns.
\<close>

definition placeholder_row :: report_row where
  "placeholder_row =
     \<lparr>item_description = Some ''No Pretor Group items found or linked.'', is_complete = False,
      date_completed = Some ''-'', completed_by = Some ''-''\<rparr>"

text \<open>\<^verbatim>\<open>pretor_data = progress_data[progress_data['type'] == 'Pretor']\<close>\<close>

definition pretor_data :: "flat_row list \<Rightarrow> flat_row list" where
  "pretor_data progress_data = filter (\<lambda>r. type r = ''Pretor'') progress_data"

definition generate_pdf_report ::
  "(nat \<Rightarrow> string \<Rightarrow> string list) \<Rightarrow> string \<Rightarrow> flat_row list \<Rightarrow> report" where
  "generate_pdf_report wrap scheme_name progress_data =
     (if pretor_data progress_data \<noteq> []
      then chapter_body wrap (pretor_data progress_data) scheme_name
      else chapter_body wrap [placeholder_row] scheme_name)"

section \<open>Notions used in the statements\<close>

text \<open>Every request that the script of the store still holds goes through.\<close>

definition all_go_through :: "store \<Rightarrow> bool" where
  "all_go_through s = list_all (\<lambda>b. b) (outcomes s)"



text \<open>
  The progress row that the store holds for a template item copied to a scheme: the id
  assigned by the store, the scheme, the item, not complete, nothing else.
\<close>

definition copied_row :: "nat \<Rightarrow> nat \<times> master_checklist_row \<Rightarrow> progress_tracker_row" where
  "copied_row new_scheme_id km =
     \<lparr>pt_id = fst km, pt_scheme_id = new_scheme_id, pt_master_item_id = mc_id (snd km),
      pt_is_complete = False, pt_date_completed = None, pt_completed_by = None, pt_notes = None\<rparr>"

text \<open>
  Whether the template catalog, as it is in the store, gives the source item of a progress
  row the category \<open>Pretor\<close>.
\<close>

definition catalog_says_pretor :: "store \<Rightarrow> progress_tracker_row \<Rightarrow> bool" where
  "catalog_says_pretor s item =
     (case find (\<lambda>m. mc_id m = pt_master_item_id item) (master_checklist s) of
        None \<Rightarrow> False
      | Some m \<Rightarrow> mc_type m = ''Pretor'')"

text \<open>The text of a report row after \<^verbatim>\<open>fillna('N/A')\<close> and the ASCII filter.\<close>

definition item_text :: "'a report_row_scheme \<Rightarrow> string" where
  "item_text row = sanitize (case item_description row of None \<Rightarrow> ''N/A'' | Some t \<Rightarrow> t)"

section \<open>Sample inputs\<close>

text \<open>A submitted form for a body corporate.\<close>

definition form_bc :: scheme_form where
  "form_bc =
     \<lparr>form_scheme_name = ''Sunset Villas'', form_is_bc = True,
      form_assigned_portfolio_manager = ''T Nkosi'', form_pm_email = ''pm@example.com'',
      form_registration_number = ''SS 12/2001'', form_other_inputs = []\<rparr>"

text \<open>
  A store with one scheme, one template item of the previous managing agent and the
  progress record 7 of the specification's scenario, not complete and without notes.
\<close>

definition item_pma :: master_checklist_row where
  "item_pma =
     \<lparr>mc_id = 1, mc_item_description = Some ''Obtain the audited financials'',
      mc_type = ''PMA'', mc_scheme_type = ''BC''\<rparr>"

definition record7 :: progress_tracker_row where
  "record7 =
     \<lparr>pt_id = 7, pt_scheme_id = 1, pt_master_item_id = 1, pt_is_complete = False,
      pt_date_completed = None, pt_completed_by = None, pt_notes = None\<rparr>"

definition store7 :: store where
  "store7 =
     \<lparr>schemes = [(1, scheme_data form_bc)], master_checklist = [item_pma],
      progress_tracker = [record7], next_scheme_id = 2, next_progress_id = 8, outcomes = []\<rparr>"

text \<open>The row of \<^verbatim>\<open>df_progress\<close> for record 7, and the edit of the scenario.\<close>

definition row7 :: flat_row where
  "row7 =
     \<lparr>item_description = Some ''Obtain the audited financials'', is_complete = False,
      date_completed = None, completed_by = None, progress_id = 7, scheme_type = ''BC'',
      type = ''PMA'', notes_text = None\<rparr>"

definition edited7 :: flat_row where
  "edited7 =
     row7\<lparr>is_complete := True, date_completed := Some ''2024-03-01'',
          completed_by := Some ''Bookkeeper'', notes_text := Some ''done''\<rparr>"

text \<open>Missing cells read as \<^verbatim>\<open>None\<close> in every column, and as NaN in every column.\<close>

definition none_cols :: "string \<Rightarrow> bool" where
  "none_cols column = False"







text \<open>
  A store before any scheme exists, with a catalog of one item of the managing firm, and
  the same store with an empty catalog.
\<close>

definition item_pretor :: master_checklist_row where
  "item_pretor =
     \<lparr>mc_id = 1, mc_item_description = Some ''Load the scheme on the system'',
      mc_type = ''Pretor'', mc_scheme_type = ''BC''\<rparr>"

definition store_new :: store where
  "store_new =
     \<lparr>schemes = [], master_checklist = [item_pretor], progress_tracker = [],
      next_scheme_id = 1, next_progress_id = 1, outcomes = []\<rparr>"

definition store_no_catalog :: store where
  "store_no_catalog = store_new\<lparr>master_checklist := []\<rparr>"

text \<open>
  The store \<open>store_new\<close> after \<open>form_bc\<close> has been submitted, the row of
  \<^verbatim>\<open>df_progress\<close> for the record created, and the template item after its category has
  been changed in the catalog.
\<close>

definition store_created :: store where
  "store_created =
     store_new\<lparr>schemes := [(1, scheme_data form_bc)],
               progress_tracker := [copied_row 1 (1, item_pretor)],
               next_scheme_id := 2, next_progress_id := 2\<rparr>"

definition row_created :: flat_row where
  "row_created =
     \<lparr>item_description = Some ''Load the scheme on the system'', is_complete = False,
      date_completed = None, completed_by = None, progress_id = 1, scheme_type = ''BC'',
      type = ''Pretor'', notes_text = None\<rparr>"

definition item_recategorised :: master_checklist_row where
  "item_recategorised = item_pretor\<lparr>mc_type := ''PMA''\<rparr>"

text \<open>The two records of the specification's report example.\<close>

definition report_rowA :: flat_row where
  "report_rowA =
     \<lparr>item_description = Some ''A'', is_complete = True, date_completed = Some ''2024-03-01'',
      completed_by = Some ''Me'', progress_id = 1, scheme_type = ''BC'', type = ''Pretor'',
      notes_text = None\<rparr>"

definition report_rowB :: flat_row where
  "report_rowB =
     \<lparr>item_description = Some ''B'', is_complete = False, date_completed = None,
      completed_by = None, progress_id = 2, scheme_type = ''BC'', type = ''PMA'',
      notes_text = None\<rparr>"

text \<open>A line breaking that puts every text on one line, and one that makes three lines.\<close>

definition one_line :: "nat \<Rightarrow> string \<Rightarrow> string list" where
  "one_line w txt = [txt]"

definition three_lines :: "nat \<Rightarrow> string \<Rightarrow> string list" where
  "three_lines w txt = [take 10 txt, take 10 (drop 10 txt), drop 20 txt]"

section \<open>Reconciliation: what the save path does\<close>



lemma compare_labels:
  "compare edited_df df = Inr changes \<Longrightarrow> map fst changes = map fst df \<and> map fst edited_df = map fst df"
proof -
  assume a: "compare edited_df df = Inr changes"
  then have eq: "map fst edited_df = map fst df"
    by (auto simp: compare_def split: if_splits)
  then have len: "length edited_df = length df" by (metis length_map)
  from a have "changes = map (\<lambda>((i, a), (j, b)). (i, diff_row a b)) (zip edited_df df)"
    by (auto simp: compare_def split: if_splits)
  then have "map fst changes = map fst (map fst (zip edited_df df))"
    by (simp add: case_prod_beta comp_def)
  also have "\<dots> = map fst edited_df" using len by simp
  finally show ?thesis using eq by simp
qed

lemma compare_same_labels:
  "map fst edited_df = map fst df \<Longrightarrow> \<exists>changes. compare edited_df df = Inr changes"
  by (simp add: compare_def)

lemma compare_other_labels:
  "map fst edited_df \<noteq> map fst df \<Longrightarrow> compare edited_df df = Inl ValueError"
  by (simp add: compare_def)

text \<open>
  The outcome of a save on a frame that has a row: the comparison raises when the labels
  of the edited view are not those of the frame, in its order; otherwise the loop is
  entered and the update of the first row raises.
\<close>

lemma save_outcome:
  assumes "df \<noteq> []"
  shows "display_and_edit_progress nan_cols df source_type edited_df s =
           (if map fst edited_df = map fst df then (Inl TypeError, [], s)
            else (Inl ValueError, [], s))"
proof (cases "map fst edited_df = map fst df")
  case False
  with assms show ?thesis
    by (simp add: display_and_edit_progress_def compare_other_labels)
next
  case True
  from compare_same_labels[OF True] obtain changes where c: "compare edited_df df = Inr changes"
    by blast
  from compare_labels[OF c] have l: "map fst changes = map fst df" by simp
  from assms obtain d ds where df: "df = d # ds" by (cases df) auto
  with True obtain e es where ed: "edited_df = e # es" and fe: "fst e = fst d"
    by (cases edited_df) auto
  have "row_update nan_cols df edited_df (fst d) = Inr (progress_id (snd d), update_payload nan_cols (snd e))"
    using fe by (cases d; cases e) (simp add: row_update_def loc_def df ed)
  then have "save_loop nan_cols (map fst df) df edited_df [] s = (Inl TypeError, [], s)"
    by (simp add: df update_progress_def)
  with c l assms True show ?thesis
    by (auto simp: display_and_edit_progress_def)
qed



text \<open>
  Claim C3 against the code: record 7 is shown and saved without any edit. The
  comparison with \<^verbatim>\<open>keep_shape=True\<close> keeps the unchanged row, with no difference in any
  of its cells, so \<^verbatim>\<open>changes\<close> is not empty, the branch ``No changes detected to save.''
  is not taken and the loop goes on to update record 7: the save ends in the
  \<open>TypeError\<close> of that update instead of reporting that nothing has changed.
\<close>

theorem unchanged_row_is_not_excluded:
  "compare (df_pma [row7]) (df_pma [row7]) =
     Inr [(0, \<lparr>ch_Complete = None, ch_Date = None, ch_Completed_By = None, ch_Notes = None\<rparr>)]
   \<and> display_and_edit_progress none_cols (df_pma [row7]) ''PMA'' (df_pma [row7]) store7 =
       (Inl TypeError, [], store7)"
  by (simp add: display_and_edit_progress_def compare_def diff_row_def cell_diff_def
      row_update_def loc_def update_progress_def df_pma_def reset_index_def row7_def)

text \<open>
  The same for every frame and every edited view: the result of a save is never the
  notification that no change was detected.
\<close>

lemma no_changes_is_never_reported:
  "fst (display_and_edit_progress nan_cols df source_type edited_df s) \<noteq> Inr Info_no_changes"
proof (cases "df = []")
  case True
  then show ?thesis by (simp add: display_and_edit_progress_def)
next
  case False
  from save_outcome[OF this] show ?thesis by simp
qed

text \<open>
  Claim C4 against the code: the scenario of the specification. Record 7 is edited and
  saved; the update raises \<open>TypeError\<close> and the store stays as it was. Progress read
  again from the store is the frame of before, and the same edited view still differs
  from it in all four editable columns: saving it again is the first save over again,
  with record 7 as dirty as before.
\<close>

theorem edit_is_still_pending_after_save:
  "display_and_edit_progress none_cols (df_pma [row7]) ''PMA'' (reset_index [edited7]) store7 =
     (Inl TypeError, [], store7)
   \<and> df_progress 1 store7 = (Inr [row7], store7)
   \<and> compare (reset_index [edited7]) (df_pma [row7]) =
       Inr [(0, \<lparr>ch_Complete = Some (True, False),
                ch_Date = Some (Some ''2024-03-01'', None),
                ch_Completed_By = Some (Some ''Bookkeeper'', None),
                ch_Notes = Some (Some ''done'', None)\<rparr>)]"
  by (simp add: display_and_edit_progress_def compare_def diff_row_def cell_diff_def
      row_update_def loc_def update_progress_def df_pma_def reset_index_def row7_def edited7_def
      df_progress_def progress_data_list_def execute_def store7_def record7_def item_pma_def)









section \<open>Instantiation: what \<open>new_scheme_page\<close> does\<close>

text \<open>
  Claim C10. Scheme creation and the copying of the checklist are not atomic. When the
  form is complete, the catalog is read, the insert of the scheme goes through and the
  bulk insert of the progress records raises, the page shows the success of the scheme
  and then the failure; the store keeps the new scheme, the table of progress records is
  what it was, and exactly three requests have been made, so no request undoes the
  scheme. If no progress record referred to the new id before, the scheme has no
  progress record.
\<close>

theorem scheme_kept_when_copy_fails:
  assumes "mandatory_filled form"
    and "outcomes s = True # True # False # rest"
    and "filter (\<lambda>row. mc_scheme_type row = scheme_type_abbr form) (master_checklist s) \<noteq> []"
  shows "new_scheme_page form s =
           ([Success_scheme_created (form_scheme_name form), Error_failed_create_or_copy APIError],
            s\<lparr>schemes := schemes s @ [(next_scheme_id s, scheme_data form)],
              next_scheme_id := Suc (next_scheme_id s), outcomes := rest\<rparr>)
         \<and> ((\<forall>r\<in>set (progress_tracker s). pt_scheme_id r < next_scheme_id s) \<longrightarrow>
              filter (\<lambda>r. pt_scheme_id r = next_scheme_id s)
                (progress_tracker (snd (new_scheme_page form s))) = [])"
proof -
  from assms(3) have ne: "master_checklist s \<noteq> []" by auto
  have eq: "new_scheme_page form s =
           ([Success_scheme_created (form_scheme_name form), Error_failed_create_or_copy APIError],
            s\<lparr>schemes := schemes s @ [(next_scheme_id s, scheme_data form)],
              next_scheme_id := Suc (next_scheme_id s), outcomes := rest\<rparr>)"
    using assms ne
    by (simp add: new_scheme_page_def fetch_data_master_checklist_def execute_def insert_scheme_def
        items_to_copy_def insert_progress_def Let_def)
  show ?thesis
  proof (intro conjI impI)
    show "new_scheme_page form s =
           ([Success_scheme_created (form_scheme_name form), Error_failed_create_or_copy APIError],
            s\<lparr>schemes := schemes s @ [(next_scheme_id s, scheme_data form)],
              next_scheme_id := Suc (next_scheme_id s), outcomes := rest\<rparr>)"
      by (rule eq)
  next
    assume "\<forall>r\<in>set (progress_tracker s). pt_scheme_id r < next_scheme_id s"
    then show "filter (\<lambda>r. pt_scheme_id r = next_scheme_id s)
                (progress_tracker (snd (new_scheme_page form s))) = []"
      by (auto simp: eq filter_empty_conv)
  qed
qed

theorem scheme_kept_when_copy_fails_witness:
  "mandatory_filled form_bc
   \<and> outcomes (store7\<lparr>outcomes := [True, True, False]\<rparr>) = True # True # False # []
   \<and> filter (\<lambda>row. mc_scheme_type row = scheme_type_abbr form_bc)
        (master_checklist (store7\<lparr>outcomes := [True, True, False]\<rparr>)) \<noteq> []
   \<and> progress_tracker (store7\<lparr>outcomes := [True, True, False]\<rparr>) = [record7]
   \<and> pt_scheme_id record7 < next_scheme_id (store7\<lparr>outcomes := [True, True, False]\<rparr>)
   \<and> new_scheme_page form_bc (store7\<lparr>outcomes := [True, True, False]\<rparr>) =
       ([Success_scheme_created ''Sunset Villas'', Error_failed_create_or_copy APIError],
        store7\<lparr>schemes := [(1, scheme_data form_bc), (2, scheme_data form_bc)], next_scheme_id := 3\<rparr>)
   \<and> filter (\<lambda>r. pt_scheme_id r = 2)
        (progress_tracker (snd (new_scheme_page form_bc (store7\<lparr>outcomes := [True, True, False]\<rparr>)))) = []"
proof -
  have h1: "mandatory_filled form_bc" by (simp add: mandatory_filled_def form_bc_def)
  have h2: "outcomes (store7\<lparr>outcomes := [True, True, False]\<rparr>) = True # True # False # []" by simp
  have h3: "filter (\<lambda>row. mc_scheme_type row = scheme_type_abbr form_bc)
        (master_checklist (store7\<lparr>outcomes := [True, True, False]\<rparr>)) \<noteq> []"
    by (simp add: store7_def item_pma_def scheme_type_abbr_def form_bc_def)
  have h4: "\<forall>r\<in>set (progress_tracker (store7\<lparr>outcomes := [True, True, False]\<rparr>)).
         pt_scheme_id r < next_scheme_id (store7\<lparr>outcomes := [True, True, False]\<rparr>)"
    by (simp add: store7_def record7_def)
  have n: "form_scheme_name form_bc = ''Sunset Villas''" by (simp add: form_bc_def)
  show ?thesis
    using h1 h2 h3 h4 n scheme_kept_when_copy_fails [OF h1 h2 h3]
    by (simp add: store7_def record7_def)
qed

lemma execute_all_go_through:
  "all_go_through s \<Longrightarrow> \<exists>s'. execute s = (True, s') \<and> all_go_through s' \<and>
     schemes s' = schemes s \<and> master_checklist s' = master_checklist s \<and>
     progress_tracker s' = progress_tracker s \<and> next_scheme_id s' = next_scheme_id s \<and>
     next_progress_id s' = next_progress_id s"
  by (auto simp: execute_def all_go_through_def split: list.splits)

text \<open>
  What instantiation does when the catalog has at least one item, the form is complete and
  every request goes through: the table of progress records grows by one record per
  catalog item of the scheme's type, in catalog order, bound to the new scheme and to
  that item and not complete; items of the other type add nothing.
\<close>

lemma new_scheme_page_copies_matching_items:
  assumes "mandatory_filled form" and "all_go_through s" and "master_checklist s \<noteq> []"
  shows "progress_tracker (snd (new_scheme_page form s)) =
           progress_tracker s @
           map (copied_row (next_scheme_id s))
             (enumerate (next_progress_id s)
                (filter (\<lambda>row. mc_scheme_type row = scheme_type_abbr form) (master_checklist s)))"
proof -
  from execute_all_go_through[OF assms(2)] obtain s1 where
    e1: "execute s = (True, s1)" and a1: "all_go_through s1"
    and k1: "master_checklist s1 = master_checklist s" "progress_tracker s1 = progress_tracker s"
            "next_scheme_id s1 = next_scheme_id s" "next_progress_id s1 = next_progress_id s"
    by blast
  from execute_all_go_through[OF a1] obtain s2 where
    e2: "execute s1 = (True, s2)" and a2: "all_go_through s2"
    and k2: "master_checklist s2 = master_checklist s1" "progress_tracker s2 = progress_tracker s1"
            "next_scheme_id s2 = next_scheme_id s1" "next_progress_id s2 = next_progress_id s1"
    by blast
  define s2' where "s2' = s2\<lparr>schemes := schemes s2 @ [(next_scheme_id s2, scheme_data form)],
              next_scheme_id := Suc (next_scheme_id s2)\<rparr>"
  have a2': "all_go_through s2'" using a2 by (simp add: s2'_def all_go_through_def)
  from execute_all_go_through[OF a2'] obtain s3 where
    e3: "execute s2' = (True, s3)"
    and k3: "progress_tracker s3 = progress_tracker s2'" "next_progress_id s3 = next_progress_id s2'"
    by blast
  have enum: "\<And>n xs. map new_progress_row (enumerate n
           (map (\<lambda>row. \<lparr>pd_scheme_id = next_scheme_id s, pd_master_item_id = mc_id row, pd_is_complete = False\<rparr>) xs))
         = map (copied_row (next_scheme_id s)) (enumerate n xs)"
    by (simp add: enumerate_eq_zip zip_map2 new_progress_row_def copied_row_def case_prod_beta)
  show ?thesis
    using assms(1,3) e1 e2 e3 k1 k2 k3 enum
    by (simp add: new_scheme_page_def fetch_data_master_checklist_def insert_scheme_def
        items_to_copy_def insert_progress_def Let_def s2'_def[symmetric])
       (simp add: s2'_def)
qed

text \<open>
  Claim C6 against the code: a catalog without any item has no item of the scheme's
  type, yet the page does not reach its warning. \<open>fetch_data\<close> returns a frame without
  columns for the empty table, reading the column \<open>scheme_type\<close> raises \<open>KeyError\<close>
  inside the \<^verbatim>\<open>try\<close> block, and the page reports ``Failed to create scheme or copy
  checklists'' after the scheme has been created.
\<close>

theorem empty_catalog_is_reported_as_failure:
  "new_scheme_page form_bc store_no_catalog =
     ([Success_scheme_created ''Sunset Villas'', Error_failed_create_or_copy (KeyError ''scheme_type'')],
      store_no_catalog\<lparr>schemes := [(1, scheme_data form_bc)], next_scheme_id := 2\<rparr>)"
  by (simp add: new_scheme_page_def fetch_data_master_checklist_def insert_scheme_def items_to_copy_def insert_progress_def mandatory_filled_def scheme_type_abbr_def scheme_data_def new_progress_row_def
      execute_def form_bc_def item_pretor_def store_new_def store_no_catalog_def)

section \<open>The category of a record\<close>

text \<open>
  Claim C2 as stated fails. A scheme is created from a catalog whose item 1 has the
  category \<open>Pretor\<close>; its record is among the records of the report. After the category
  of item 1 has been changed in the catalog, the same record is read with the category
  \<open>PMA\<close> and the report no longer includes it.
\<close>

theorem catalog_edit_changes_report_counterexample:
  "new_scheme_page form_bc store_new =
     ([Success_scheme_created ''Sunset Villas'', Success_copied 1], store_created)
   \<and> df_progress 1 store_created = (Inr [row_created], store_created)
   \<and> pretor_data [row_created] = [row_created]
   \<and> df_progress 1 (store_created\<lparr>master_checklist := [item_recategorised]\<rparr>) =
       (Inr [row_created\<lparr>type := ''PMA''\<rparr>], store_created\<lparr>master_checklist := [item_recategorised]\<rparr>)
   \<and> pretor_data [row_created\<lparr>type := ''PMA''\<rparr>] = []"
  by (simp add: new_scheme_page_def fetch_data_master_checklist_def insert_scheme_def items_to_copy_def insert_progress_def mandatory_filled_def scheme_type_abbr_def scheme_data_def new_progress_row_def
      df_progress_def progress_data_list_def pretor_data_def execute_def form_bc_def item_pretor_def
      store_new_def store_created_def row_created_def item_recategorised_def copied_row_def)

lemma data_for_df_pretor:
  "data_for_df joined = Inr rows \<Longrightarrow>
   map progress_id (pretor_data rows) =
   map (\<lambda>jm. pt_id (fst jm))
     (filter (\<lambda>jm. case snd jm of None \<Rightarrow> False | Some m \<Rightarrow> mc_type m = ''Pretor'') joined)"
  by (induction joined arbitrary: rows rule: data_for_df.induct)
     (auto simp: pretor_data_def split: sum.splits)

lemma new_scheme_page_ignores_category:
  "progress_tracker (snd (new_scheme_page form
      (s\<lparr>master_checklist := map (\<lambda>m. m\<lparr>mc_type := category m\<rparr>) (master_checklist s)\<rparr>))) =
   progress_tracker (snd (new_scheme_page form s))"
  by (simp add: new_scheme_page_def fetch_data_master_checklist_def insert_scheme_def items_to_copy_def insert_progress_def mandatory_filled_def scheme_type_abbr_def scheme_data_def new_progress_row_def
      execute_def Let_def filter_map comp_def split: list.splits bool.splits)

text \<open>
  Claim C2, as amended. The record created for a template item stores the scheme, the
  item and the flag, and no category: the records created are the same whatever
  categories the catalog holds. The category of a record is read from the catalog each
  time progress is read, so the records of a scheme that the report includes are those
  whose source item has the category \<open>Pretor\<close> in the catalog as it is at that time.
\<close>

theorem report_inclusion_follows_current_catalog:
  "(df_progress selected_scheme_id s = (Inr rows, s') \<longrightarrow>
      map progress_id (pretor_data rows) =
      map pt_id (filter (catalog_says_pretor s)
                   (filter (\<lambda>item. pt_scheme_id item = selected_scheme_id) (progress_tracker s))))
   \<and> progress_tracker (snd (new_scheme_page form
        (s\<lparr>master_checklist := map (\<lambda>m. m\<lparr>mc_type := category m\<rparr>) (master_checklist s)\<rparr>))) =
     progress_tracker (snd (new_scheme_page form s))"
proof (intro conjI impI)
  assume a: "df_progress selected_scheme_id s = (Inr rows, s')"
  define joined where "joined =
     map (\<lambda>item. (item, find (\<lambda>m. mc_id m = pt_master_item_id item) (master_checklist s)))
       (filter (\<lambda>item. pt_scheme_id item = selected_scheme_id) (progress_tracker s))"
  from a have "data_for_df joined = Inr rows"
    by (auto simp: df_progress_def progress_data_list_def execute_def joined_def
        split: list.splits bool.splits prod.splits sum.splits if_splits)
  from data_for_df_pretor[OF this]
  show "map progress_id (pretor_data rows) =
      map pt_id (filter (catalog_says_pretor s)
                   (filter (\<lambda>item. pt_scheme_id item = selected_scheme_id) (progress_tracker s)))"
    by (simp add: joined_def filter_map comp_def catalog_says_pretor_def)
next
  show "progress_tracker (snd (new_scheme_page form
        (s\<lparr>master_checklist := map (\<lambda>m. m\<lparr>mc_type := category m\<rparr>) (master_checklist s)\<rparr>))) =
     progress_tracker (snd (new_scheme_page form s))"
    by (rule new_scheme_page_ignores_category)
qed

theorem report_inclusion_follows_current_catalog_witness:
  "df_progress 1 store_created = (Inr [row_created], store_created)
   \<and> map progress_id (pretor_data [row_created]) = [1]
   \<and> map pt_id (filter (catalog_says_pretor store_created)
        (filter (\<lambda>item. pt_scheme_id item = 1) (progress_tracker store_created))) = [1]"
proof -
  have h: "df_progress 1 store_created = (Inr [row_created], store_created)"
    by (simp add: df_progress_def progress_data_list_def pretor_data_def execute_def form_bc_def item_pretor_def
        store_new_def store_created_def row_created_def copied_row_def)
  show ?thesis
    using h report_inclusion_follows_current_catalog [of 1 store_created "[row_created]" store_created]
    by (simp add: pretor_data_def row_created_def)
qed

section \<open>The report\<close>

text \<open>
  Claim C7. The rows of the table are, in order, the rows drawn for the records whose
  category is \<open>Pretor\<close>, and for no other record; when no record has that category the
  table has one row, drawn from the placeholder, whose item cell holds the text ``No
  Pretor Group items found or linked.''
\<close>

theorem report_rows_are_the_pretor_records:
  "table_rows (generate_pdf_report wrap scheme_name progress_data) =
     (if \<exists>r\<in>set progress_data. type r = ''Pretor''
      then map (draw_row wrap) (filter (\<lambda>r. type r = ''Pretor'') progress_data)
      else [draw_row wrap placeholder_row])
   \<and> cell_lines (item_cell (draw_row wrap placeholder_row)) =
       wrap 100 ''No Pretor Group items found or linked.''"
  by (simp add: generate_pdf_report_def chapter_body_def draw_row_def multi_cell_def cell_def col_widths_def sanitize_def placeholder_row_def item_text_def
      pretor_data_def filter_empty_conv Let_def)

theorem report_rows_are_the_pretor_records_witness:
  "(\<exists>r\<in>set [report_rowA, report_rowB]. type r = ''Pretor'')
   \<and> table_rows (generate_pdf_report one_line ''Sunset Villas'' [report_rowA, report_rowB]) =
       [draw_row one_line report_rowA]
   \<and> \<not> (\<exists>r\<in>set [report_rowB]. type r = ''Pretor'')
   \<and> table_rows (generate_pdf_report one_line ''Sunset Villas'' [report_rowB]) =
       [draw_row one_line placeholder_row]
   \<and> cell_lines (item_cell (draw_row one_line placeholder_row)) =
       [''No Pretor Group items found or linked.'']"
  using report_rows_are_the_pretor_records [of one_line "''Sunset Villas''" "[report_rowA, report_rowB]"]
    report_rows_are_the_pretor_records [of one_line "''Sunset Villas''" "[report_rowB]"]
  by (simp add: report_rowA_def report_rowB_def one_line_def)

text \<open>
  Claim C8. The table has one row per record. When the sanitized description of a record
  breaks into N lines at the width 100 of the description column, the item cell holds
  those N lines and is N times the line height 6 high, and the status, date and
  completed-by cells are drawn at that same height, each with its text on a single line.
\<close>

theorem row_cells_share_height:
  "length (table_rows (chapter_body wrap data scheme_name)) = length data
   \<and> (\<forall>k<length data.
        let row = table_rows (chapter_body wrap data scheme_name) ! k;
            N = length (wrap 100 (item_text (data ! k)))
        in cell_lines (item_cell row) = wrap 100 (item_text (data ! k))
           \<and> cell_h (item_cell row) = N * 6 \<and> cell_h (status_cell row) = N * 6
           \<and> cell_h (date_cell row) = N * 6 \<and> cell_h (completed_by_cell row) = N * 6
           \<and> length (cell_lines (status_cell row)) = 1
           \<and> length (cell_lines (date_cell row)) = 1
           \<and> length (cell_lines (completed_by_cell row)) = 1)"
  by (simp add: chapter_body_def draw_row_def multi_cell_def cell_def col_widths_def item_text_def Let_def)

theorem row_cells_share_height_witness:
  "(0::nat) < length [row7]
   \<and> length (three_lines 100 (item_text row7)) = 3
   \<and> cell_h (item_cell (table_rows (chapter_body three_lines [row7] ''Sunset Villas'') ! 0)) = 18
   \<and> cell_h (status_cell (table_rows (chapter_body three_lines [row7] ''Sunset Villas'') ! 0)) = 18
   \<and> cell_h (date_cell (table_rows (chapter_body three_lines [row7] ''Sunset Villas'') ! 0)) = 18
   \<and> cell_h (completed_by_cell (table_rows (chapter_body three_lines [row7] ''Sunset Villas'') ! 0)) = 18
   \<and> cell_lines (item_cell (table_rows (chapter_body three_lines [row7] ''Sunset Villas'') ! 0)) =
       [''Obtain the'', '' audited f'', ''inancials'']"
  using row_cells_share_height [of three_lines "[row7]" "''Sunset Villas''"]
  by (simp add: Let_def three_lines_def item_text_def sanitize_def row7_def)

end
